theory Spec2Isabelle
  imports Complex_Main "HOL-Library.Multiset"
begin

section \<open>Interest points (Descriptor.h)\<close>

text \<open>
  A shallow embedding of \<^verbatim>\<open>vw::ip\<close>: the interest point structure of
  \<^verbatim>\<open>Descriptor.h\<close>, and the detectors and interest operators of \<^verbatim>\<open>Detector.h\<close>.

  Conventions of the embedding.
  \<^item> The C++ \<^verbatim>\<open>float\<close> and \<^verbatim>\<open>double\<close> are idealised as \<^typ>\<open>real\<close>: rounding,
    infinities and NaN are outside the model. \<^verbatim>\<open>int\<close> and \<^verbatim>\<open>int32\<close> are \<^typ>\<open>int\<close>;
    no computation of the modelled code relies on wrap-around.
  \<^item> The fields of \<^verbatim>\<open>struct InterestPoint\<close> carry the prefix \<open>ip_\<close> (a record field
    named \<open>x\<close> would capture every variable of that name).
  \<^item> Functions declared in headers that are not part of the modelled sources
    (\<^verbatim>\<open>find_peaks\<close>, \<^verbatim>\<open>fit_peak\<close>, the histogram utilities, the image filters,
    \<^verbatim>\<open>image_blocks\<close>, \<^verbatim>\<open>crop\<close>) are parameters of the functions that call them.
\<close>

record InterestPoint =
  ip_x :: real
  ip_y :: real
  ip_scale :: real
  ip_ix :: int
  ip_iy :: int
  ip_orientation :: real
  ip_interest :: real
  ip_descriptor :: "real list"

type_synonym InterestPointList = "InterestPoint list"

datatype exception = ArgumentErr string

text \<open>\<^verbatim>\<open>int size() const { return 2; }\<close>\<close>

definition size_ip :: "InterestPoint \<Rightarrow> int" where
  "size_ip p = 2"

text \<open>
  \<^verbatim>\<open>double operator[] (int index) const\<close>: the two coordinates, and a thrown
  \<^verbatim>\<open>ArgumentErr\<close> (the left injection) for any other index.
\<close>

definition operator_index :: "InterestPoint \<Rightarrow> int \<Rightarrow> exception + real" where
  "operator_index p index =
     (if index = 0 then Inr (ip_x p)
      else if index = 1 then Inr (ip_y p)
      else Inl (ArgumentErr ''Interest Point: Invalid index''))"

text \<open>\<^verbatim>\<open>bool operator< (const InterestPoint& other) const\<close>\<close>

definition operator_less :: "InterestPoint \<Rightarrow> InterestPoint \<Rightarrow> bool" where
  "operator_less p other = (ip_interest other < ip_interest p)"

section \<open>The list operations used by the detectors\<close>

text \<open>
  \<^verbatim>\<open>std::list::sort()\<close> sorts with \<^verbatim>\<open>operator<\<close> and is stable. For a strict weak
  order the result of a stable sort is determined by the input, so the sort is
  modelled by the stable insertion sort over the comparator: an element is put in
  front of the first later element that is not less than it.
\<close>

fun list_insert :: "InterestPoint \<Rightarrow> InterestPointList \<Rightarrow> InterestPointList" where
  "list_insert p [] = [p]"
| "list_insert p (q # qs) =
     (if operator_less q p then q # list_insert p qs else p # q # qs)"

fun list_sort :: "InterestPointList \<Rightarrow> InterestPointList" where
  "list_sort [] = []"
| "list_sort (p # ps) = list_insert p (list_sort ps)"

text \<open>
  The cull stage of \<^verbatim>\<open>process_image\<close> (the same statements in both detectors):
  \<^verbatim>\<open>points.sort(); if ((m_max_points > 0) && (m_max_points < (int)points.size()))
  points.resize(m_max_points);\<close>. Shrinking a list by \<^verbatim>\<open>resize\<close> keeps its first
  elements.
\<close>

definition cull :: "int \<Rightarrow> InterestPointList \<Rightarrow> InterestPointList" where
  "cull m_max_points points =
     (let points = list_sort points
      in if m_max_points > 0 \<and> m_max_points < int (length points)
         then take (nat m_max_points) points
         else points)"

section \<open>Image planes and per-plane data\<close>

text \<open>
  An image plane (\<^verbatim>\<open>ImageView<float>\<close>): its dimensions and the pixel at each
  (column, row). The arithmetic operators on planes work pixel by pixel.
\<close>

record ImageView =
  cols :: int
  rows :: int
  pixel :: "int \<Rightarrow> int \<Rightarrow> real"

definition image_binary :: "(real \<Rightarrow> real \<Rightarrow> real) \<Rightarrow> ImageView \<Rightarrow> ImageView \<Rightarrow> ImageView" where
  "image_binary f a b =
     \<lparr>cols = cols a, rows = rows a, pixel = (\<lambda>i j. f (pixel a i j) (pixel b i j))\<rparr>"

definition image_unary :: "(real \<Rightarrow> real) \<Rightarrow> ImageView \<Rightarrow> ImageView" where
  "image_unary f a = \<lparr>cols = cols a, rows = rows a, pixel = (\<lambda>i j. f (pixel a i j))\<rparr>"

text \<open>
  Modelled from the spec: \<^verbatim>\<open>ImageInterestData\<close> is declared in
  \<^verbatim>\<open>InterestData.h\<close>, which is not among the sources. The spec describes it as
  the per-plane derived data: one source plane, the gradient-x, gradient-y,
  orientation and magnitude planes computed from it, and the interest plane supplied
  by the operator. The record has one field per accessor that \<^verbatim>\<open>Detector.h\<close> calls.
\<close>

record ImageInterestData =
  data_source :: ImageView
  data_gradient_x :: ImageView
  data_gradient_y :: ImageView
  data_orientation :: ImageView
  data_magnitude :: ImageView
  data_interest :: ImageView

definition set_interest :: "ImageInterestData \<Rightarrow> ImageView \<Rightarrow> ImageInterestData" where
  "set_interest data v = data\<lparr>data_interest := v\<rparr>"

text \<open>
  Modelled from the spec: the enumerators \<^verbatim>\<open>IP_MAX\<close>, \<^verbatim>\<open>IP_MIN\<close> and \<^verbatim>\<open>IP_MINMAX\<close>
  are declared in \<^verbatim>\<open>InterestTraits.h\<close>, which is not among the sources. The spec
  reads \<^verbatim>\<open>IP_MAX\<close> as "maxima only" and \<^verbatim>\<open>IP_MINMAX\<close> as "maxima and minima".
\<close>

datatype PeakType = IP_MAX | IP_MIN | IP_MINMAX

definition detects_maxima :: "PeakType \<Rightarrow> bool" where
  "detects_maxima t = (t = IP_MAX \<or> t = IP_MINMAX)"

definition detects_minima :: "PeakType \<Rightarrow> bool" where
  "detects_minima t = (t = IP_MIN \<or> t = IP_MINMAX)"

text \<open>
  The functions that \<^verbatim>\<open>Detector.h\<close> calls and other headers define: the image
  filters, the histogram utilities, the construction of the per-plane data, the
  extremum finder and the localizer. They are the fields of one record, which every
  modelled function that calls one of them takes as its first argument.
  \<^verbatim>\<open>crop(edge_extend(v), left, top, width, width)\<close> is the field \<open>crop_edge_extend\<close>;
  \<^verbatim>\<open>make_gaussian_kernel_2d\<close>, which fills the plane passed to it, returns it here.
\<close>

record collaborators =
  generate_gaussian_kernel :: "real \<Rightarrow> int \<Rightarrow> real list"
  separable_convolution_filter :: "ImageView \<Rightarrow> real list \<Rightarrow> real list \<Rightarrow> ImageView"
  laplacian_filter :: "ImageView \<Rightarrow> ImageView"
  make_gaussian_kernel_2d :: "real \<Rightarrow> int \<Rightarrow> ImageView"
  crop_edge_extend :: "ImageView \<Rightarrow> int \<Rightarrow> int \<Rightarrow> int \<Rightarrow> int \<Rightarrow> ImageView"
  weighted_histogram :: "ImageView \<Rightarrow> ImageView \<Rightarrow> real \<Rightarrow> real \<Rightarrow> int \<Rightarrow> real list"
  smooth_weighted_histogram :: "real list \<Rightarrow> real \<Rightarrow> real list"
  find_weighted_histogram_mode :: "real list \<Rightarrow> int list"
  interest_data :: "ImageView \<Rightarrow> ImageInterestData"
  find_peaks :: "ImageInterestData \<Rightarrow> InterestPointList"
  fit_peak :: "ImageView \<Rightarrow> InterestPoint \<Rightarrow> InterestPoint"

section \<open>Interest operators (second part of Detector.h)\<close>

record HarrisInterestOperator =
  harris_k :: real
  harris_threshold :: real

text \<open>
  \<^verbatim>\<open>HarrisInterestOperator(float threshold = 1e-5, float k = -1.0)\<close>: the constructor,
  and the operator it builds from its default arguments.
\<close>

definition HarrisInterestOperator_init :: "real \<Rightarrow> real \<Rightarrow> HarrisInterestOperator" where
  "HarrisInterestOperator_init threshold k = \<lparr>harris_k = k, harris_threshold = threshold\<rparr>"

definition HarrisInterestOperator_default :: HarrisInterestOperator where
  "HarrisInterestOperator_default = HarrisInterestOperator_init (1 / 100000) (- 1)"

text \<open>\<^verbatim>\<open>void HarrisInterestOperator::operator() (DataT& data, float scale = 1.0) const\<close>\<close>

definition Harris_operator_call ::
  "collaborators \<Rightarrow> HarrisInterestOperator \<Rightarrow> ImageInterestData \<Rightarrow> real \<Rightarrow> ImageInterestData" where
  "Harris_operator_call E this data scl =
     (let kernel = generate_gaussian_kernel E scl 0;
          Ix2 = separable_convolution_filter E
                  (image_binary (*) (data_gradient_x data) (data_gradient_x data)) kernel kernel;
          Iy2 = separable_convolution_filter E
                  (image_binary (*) (data_gradient_y data) (data_gradient_y data)) kernel kernel;
          Ixy = separable_convolution_filter E
                  (image_binary (*) (data_gradient_x data) (data_gradient_y data)) kernel kernel;
          trace = image_binary (+) Ix2 Iy2;
          det = image_binary (-) (image_binary (*) Ix2 Iy2) (image_binary (*) Ixy Ixy)
      in if harris_k this < 0
         then set_interest data
                (image_binary (/) det (image_unary (\<lambda>v. v + 1 / 1000000) trace))
         else set_interest data
                (image_binary (-) det
                   (image_binary (*) (image_unary (\<lambda>v. harris_k this * v) trace) trace)))"

text \<open>\<^verbatim>\<open>bool HarrisInterestOperator::threshold (InterestPoint const& pt, DataT const& data) const\<close>\<close>

definition Harris_threshold ::
  "HarrisInterestOperator \<Rightarrow> InterestPoint \<Rightarrow> ImageInterestData \<Rightarrow> bool" where
  "Harris_threshold this pt data = (ip_interest pt > harris_threshold this)"

record LogInterestOperator =
  log_threshold :: real

text \<open>\<^verbatim>\<open>LogInterestOperator(float threshold = 0.03)\<close>\<close>

definition LogInterestOperator_init :: "real \<Rightarrow> LogInterestOperator" where
  "LogInterestOperator_init threshold = \<lparr>log_threshold = threshold\<rparr>"

definition LogInterestOperator_default :: LogInterestOperator where
  "LogInterestOperator_default = LogInterestOperator_init (3 / 100)"

text \<open>
  The two call operators of \<^verbatim>\<open>LogInterestOperator\<close>: on a source plane, returning
  the interest plane, and on the per-plane data, storing it.
\<close>

definition Log_operator_view :: "collaborators \<Rightarrow> LogInterestOperator \<Rightarrow> ImageView \<Rightarrow> real \<Rightarrow> ImageView" where
  "Log_operator_view E this src scl = image_unary (\<lambda>v. scl * v) (laplacian_filter E src)"

definition Log_operator_call ::
  "collaborators \<Rightarrow> LogInterestOperator \<Rightarrow> ImageInterestData \<Rightarrow> real \<Rightarrow> ImageInterestData" where
  "Log_operator_call E this data scl =
     set_interest data (image_unary (\<lambda>v. scl * v) (laplacian_filter E (data_source data)))"

text \<open>\<^verbatim>\<open>bool LogInterestOperator::threshold (InterestPoint const& pt, DataT const& data) const\<close>\<close>

definition Log_threshold ::
  "LogInterestOperator \<Rightarrow> InterestPoint \<Rightarrow> ImageInterestData \<Rightarrow> bool" where
  "Log_threshold this pt data = (\<bar>ip_interest pt\<bar> > log_threshold this)"

text \<open>
  The template parameter \<^verbatim>\<open>InterestT\<close> of the detectors ranges over the two
  operators; the trait \<^verbatim>\<open>InterestPeakType<InterestT>::peak_type\<close> and the member calls
  \<^verbatim>\<open>m_interest(...)\<close>, \<^verbatim>\<open>m_interest.threshold(...)\<close> dispatch on it.
\<close>

datatype InterestT = Harris HarrisInterestOperator | Log LogInterestOperator

fun InterestPeakType :: "InterestT \<Rightarrow> PeakType" where
  "InterestPeakType (Harris _) = IP_MAX"
| "InterestPeakType (Log _) = IP_MINMAX"

fun interest_operator_call ::
  "collaborators \<Rightarrow> InterestT \<Rightarrow> ImageInterestData \<Rightarrow> real \<Rightarrow> ImageInterestData" where
  "interest_operator_call E (Harris h) data scl = Harris_operator_call E h data scl"
| "interest_operator_call E (Log l) data scl = Log_operator_call E l data scl"

fun interest_threshold :: "InterestT \<Rightarrow> InterestPoint \<Rightarrow> ImageInterestData \<Rightarrow> bool" where
  "interest_threshold (Harris h) pt data = Harris_threshold h pt data"
| "interest_threshold (Log l) pt data = Log_threshold l pt data"

section \<open>Orientation of a point (first part of Detector.h)\<close>

text \<open>The C++ conversion \<^verbatim>\<open>(int)\<close> of a floating-point value: truncation toward zero.\<close>

definition int_cast :: "real \<Rightarrow> int" where
  "int_cast r = (if 0 \<le> r then \<lfloor>r\<rfloor> else \<lceil>r\<rceil>)"

definition FEATURE_ORI_NBINS :: int where
  "FEATURE_ORI_NBINS = 36"

definition IP_ORIENTATION_HALF_WIDTH :: int where
  "IP_ORIENTATION_HALF_WIDTH = 5"

text \<open>
  The bounds test of \<^verbatim>\<open>get_orientation\<close>, for the window of the given left column,
  top row and side: \<^verbatim>\<open>(left >= 0) && (top >= 0) && (left + width < cols) &&
  (top + width < rows)\<close>.
\<close>

definition window_inside :: "ImageView \<Rightarrow> int \<Rightarrow> int \<Rightarrow> int \<Rightarrow> bool" where
  "window_inside ori left top' width =
     (left \<ge> 0 \<and> top' \<ge> 0 \<and> left + width < cols ori \<and> top' + width < rows ori)"

text \<open>
  \<^verbatim>\<open>int get_orientation(std::vector<float>& orientation, ori, mag, i0, j0,
  sigma_ratio = 1.0)\<close>. The vector is passed by reference: the function takes its
  content at the call and returns, with the result 0, its content at the return.
\<close>

definition get_orientation ::
  "collaborators \<Rightarrow> real list \<Rightarrow> ImageView \<Rightarrow> ImageView \<Rightarrow> int \<Rightarrow> int \<Rightarrow> real
     \<Rightarrow> int \<times> real list" where
  "get_orientation E orientation ori mag i0 j0 sigma_ratio =
     (let orientation = [];
          halfwidth = int_cast (of_int IP_ORIENTATION_HALF_WIDTH * sigma_ratio + 1 / 2);
          left = i0 - halfwidth;
          top' = j0 - halfwidth;
          width = halfwidth * 2 + 1
      in if window_inside ori left top' width
         then
           (let weight = make_gaussian_kernel_2d E (6 * sigma_ratio) width;
                weight = image_binary (*) weight (crop_edge_extend E mag left top' width width);
                histo = weighted_histogram E (crop_edge_extend E ori left top' width width)
                          weight (- pi) pi FEATURE_ORI_NBINS;
                histo = smooth_weighted_histogram E histo 5;
                mode = find_weighted_histogram_mode E histo
            in (0, orientation @
                   map (\<lambda>m. of_int m * (2 * pi / of_int FEATURE_ORI_NBINS) - pi) mode))
         else (0, orientation))"

section \<open>The single-scale detector\<close>

record InterestPointDetector =
  m_interest :: InterestT
  m_max_points :: int

text \<open>\<^verbatim>\<open>find_extrema\<close> and \<^verbatim>\<open>localize\<close>: the defaults of the detector.\<close>

definition find_extrema :: "collaborators \<Rightarrow> ImageInterestData \<Rightarrow> InterestPointList" where
  "find_extrema E img_data = find_peaks E img_data"

definition localize ::
  "collaborators \<Rightarrow> InterestPointList \<Rightarrow> ImageInterestData \<Rightarrow> InterestPointList" where
  "localize E points img_data = map (fit_peak E (data_interest img_data)) points"

text \<open>
  \<^verbatim>\<open>threshold\<close>: the loop that erases every point the operator's predicate rejects
  and steps over the others.
\<close>

fun threshold ::
  "InterestPointDetector \<Rightarrow> InterestPointList \<Rightarrow> ImageInterestData \<Rightarrow> InterestPointList" where
  "threshold this [] img_data = []"
| "threshold this (pos # points) img_data =
     (if \<not> interest_threshold (m_interest this) pos img_data
      then threshold this points img_data
      else pos # threshold this points img_data)"

text \<open>
  \<^verbatim>\<open>assign_orientations\<close>. The list is walked by the iterator \<open>i\<close>; the model keeps
  the points in front of the iterator (\<open>before\<close>), the point under it and the points
  behind it. \<^verbatim>\<open>points.insert(i, pt)\<close> puts \<open>pt\<close> directly in front of \<open>i\<close>, that is at
  the end of \<open>before\<close>, and leaves the iterator on the same point. The inner loop over
  \<open>j = 1, ..., orientation.size() - 1\<close> is \<open>insert_clones\<close> over the vector without
  its first entry. The vector \<open>orientation\<close> is one variable for the whole loop.
  The function is declared \<^verbatim>\<open>int\<close> and has no \<^verbatim>\<open>return\<close> statement; its caller does
  not read a result, and the model returns the list, which is passed by reference.
\<close>

fun insert_clones :: "InterestPoint \<Rightarrow> real list \<Rightarrow> InterestPointList \<Rightarrow> InterestPointList" where
  "insert_clones i [] before = before"
| "insert_clones i (a # rest) before =
     (let pt = i; pt = pt\<lparr>ip_orientation := a\<rparr>
      in insert_clones i rest (before @ [pt]))"

fun assign_loop ::
  "collaborators \<Rightarrow> ImageView \<Rightarrow> ImageView \<Rightarrow> real list \<Rightarrow> InterestPointList
     \<Rightarrow> InterestPointList \<Rightarrow> real list \<times> InterestPointList" where
  "assign_loop E ori mag orientation before [] = (orientation, before)"
| "assign_loop E ori mag orientation before (i # behind) =
     (let orientation = snd (get_orientation E orientation ori mag
                               (int_cast (ip_x i + 1 / 2)) (int_cast (ip_y i + 1 / 2)) 1)
      in if orientation \<noteq> []
         then
           (let i = i\<lparr>ip_orientation := orientation ! 0\<rparr>;
                before = insert_clones i (drop 1 orientation) before
            in assign_loop E ori mag orientation (before @ [i]) behind)
         else assign_loop E ori mag orientation (before @ [i]) behind)"

definition assign_orientations ::
  "collaborators \<Rightarrow> InterestPointList \<Rightarrow> ImageInterestData \<Rightarrow> InterestPointList" where
  "assign_orientations E points img_data =
     (let orientation = [];
          ori = data_orientation img_data;
          mag = data_magnitude img_data
      in snd (assign_loop E ori mag orientation [] points))"

text \<open>\<^verbatim>\<open>InterestPointDetector::process_image\<close>: the stages in their order.\<close>

definition process_image ::
  "collaborators \<Rightarrow> InterestPointDetector \<Rightarrow> ImageView \<Rightarrow> InterestPointList" where
  "process_image E this img =
     (let img_data = interest_data E img;
          img_data = interest_operator_call E (m_interest this) img_data 1;
          points = find_extrema E img_data;
          points = localize E points img_data;
          points = threshold this points img_data;
          points = cull (m_max_points this) points;
          points = assign_orientations E points img_data
      in points)"

section \<open>Orientation assignment of the multi-octave detector\<close>

text \<open>
  Modelled from the spec: \<^verbatim>\<open>ImageOctave\<close> is declared in \<^verbatim>\<open>ImageOctave.h\<close>, which is
  not among the sources. Of the pyramid the spec lists (plane count, planes, sigma per
  plane, base scale, scale to plane-index lookup), \<^verbatim>\<open>assign_orientations\<close> uses the
  lookup \<^verbatim>\<open>scale_to_plane_index\<close> and the sigma of a plane, \<^verbatim>\<open>sigma[k]\<close>.
\<close>

record ImageOctave =
  scale_to_plane_index :: "real \<Rightarrow> int"
  sigma :: "int \<Rightarrow> real"

text \<open>
  \<^verbatim>\<open>img_data[k]\<close> on the \<^verbatim>\<open>std::vector\<close> of per-plane data. An index outside the
  vector has no defined behaviour in C++; the model makes it the value \<open>None\<close>.
\<close>

definition vector_at :: "'a list \<Rightarrow> int \<Rightarrow> 'a option" where
  "vector_at v k = (if 0 \<le> k \<and> k < int (length v) then Some (v ! nat k) else None)"

fun assign_loop_scaled ::
  "collaborators \<Rightarrow> ImageInterestData list \<Rightarrow> ImageOctave \<Rightarrow> real list \<Rightarrow> InterestPointList
     \<Rightarrow> InterestPointList \<Rightarrow> (real list \<times> InterestPointList) option" where
  "assign_loop_scaled E img_data octave orientation before [] = Some (orientation, before)"
| "assign_loop_scaled E img_data octave orientation before (i # behind) =
     (let k = scale_to_plane_index octave (ip_scale i)
      in case vector_at img_data k of
           None \<Rightarrow> None
         | Some d \<Rightarrow>
            (let orientation = snd (get_orientation E orientation
                                      (data_orientation d) (data_magnitude d)
                                      (int_cast (ip_x i + 1 / 2)) (int_cast (ip_y i + 1 / 2))
                                      (sigma octave k / sigma octave 1))
             in if orientation \<noteq> []
                then
                  (let i = i\<lparr>ip_orientation := orientation ! 0\<rparr>;
                       before = insert_clones i (drop 1 orientation) before
                   in assign_loop_scaled E img_data octave orientation (before @ [i]) behind)
                else assign_loop_scaled E img_data octave orientation (before @ [i]) behind))"

definition assign_orientations_scaled ::
  "collaborators \<Rightarrow> InterestPointList \<Rightarrow> ImageInterestData list \<Rightarrow> ImageOctave
     \<Rightarrow> InterestPointList option" where
  "assign_orientations_scaled E points img_data octave =
     (let orientation = []
      in map_option snd (assign_loop_scaled E img_data octave orientation [] points))"

section \<open>The tiling wrapper\<close>

text \<open>
  Modelled from the spec: \<^verbatim>\<open>BBox2i\<close> is declared in \<^verbatim>\<open>vw/Math/BBox.h\<close>, which is not
  among the sources: a box of integer pixel coordinates with a minimum and a maximum
  corner. The tile origin of the spec is the minimum corner.
\<close>

record BBox2i =
  min_x :: int
  min_y :: int
  max_x :: int
  max_y :: int

text \<open>
  \<^verbatim>\<open>InterestDetectorBase::operator()\<close>. Its collaborators are the derived class's
  \<^verbatim>\<open>process_image\<close> (reached through \<^verbatim>\<open>impl()\<close>), the conversion
  \<^verbatim>\<open>pixel_cast<PixelGray<float> >(channel_cast_rescale<float>(...))\<close>, \<^verbatim>\<open>crop\<close> by a
  bounding box and \<^verbatim>\<open>image_blocks\<close>. The model returns, beside the list of points, the
  arguments of the calls of \<^verbatim>\<open>process_image\<close> in the order in which they are made.
\<close>

record ('src, 'img) detector_base =
  impl_process_image :: "'img \<Rightarrow> InterestPointList"
  gray_float :: "'src \<Rightarrow> 'img"
  crop :: "'img \<Rightarrow> BBox2i \<Rightarrow> 'img"
  image_blocks :: "'src \<Rightarrow> int \<Rightarrow> int \<Rightarrow> BBox2i list"

text \<open>The loop over the points of one tile.\<close>

definition translate_point :: "BBox2i \<Rightarrow> InterestPoint \<Rightarrow> InterestPoint" where
  "translate_point bbox pt =
     (let pt = pt\<lparr>ip_x := ip_x pt + of_int (min_x bbox)\<rparr>;
          pt = pt\<lparr>ip_ix := ip_ix pt + min_x bbox\<rparr>;
          pt = pt\<lparr>ip_y := ip_y pt + of_int (min_y bbox)\<rparr>;
          pt = pt\<lparr>ip_iy := ip_iy pt + min_y bbox\<rparr>
      in pt)"

text \<open>The loop over the tiles: \<^verbatim>\<open>splice\<close> moves the tile's points to the end of the list.\<close>

fun tile_loop ::
  "('src, 'img) detector_base \<Rightarrow> 'src \<Rightarrow> BBox2i list \<Rightarrow> 'img list \<times> InterestPointList
     \<Rightarrow> 'img list \<times> InterestPointList" where
  "tile_loop D img [] (calls, interest_points) = (calls, interest_points)"
| "tile_loop D img (bbox # bboxes) (calls, interest_points) =
     (let tile = crop D (gray_float D img) bbox;
          new_points = impl_process_image D tile;
          new_points = map (translate_point bbox) new_points
      in tile_loop D img bboxes (calls @ [tile], interest_points @ new_points))"

definition detect ::
  "('src, 'img) detector_base \<Rightarrow> 'src \<Rightarrow> int \<Rightarrow> 'img list \<times> InterestPointList" where
  "detect D img max_interestpoint_image_dimension =
     (if max_interestpoint_image_dimension = 0
      then ([gray_float D img], impl_process_image D (gray_float D img))
      else
        (let bboxes = image_blocks D img max_interestpoint_image_dimension
                        max_interestpoint_image_dimension
         in tile_loop D img bboxes ([], [])))"

section \<open>The orientation policy in the words of the specification\<close>

text \<open>
  The functions of this section are not translations of source functions: they state
  what the specification says of orientation assignment, and the loops above are
  compared with them. \<open>window_orientations\<close> is the list that a call of
  \<^verbatim>\<open>get_orientation\<close> computes; \<open>split_point\<close> is the consumer policy (an empty
  mode list leaves the point as it is; otherwise the point takes the first mode, and
  one clone for each further mode stands directly in front of it);
  \<open>point_orientations\<close> and \<open>split_point_scaled\<close> are the two for a point of the
  single-scale and of the multi-octave detector.
\<close>


definition window_orientations ::
  "collaborators \<Rightarrow> ImageView \<Rightarrow> ImageView \<Rightarrow> int \<Rightarrow> int \<Rightarrow> real \<Rightarrow> real list" where
  "window_orientations E ori mag i0 j0 sigma_ratio =
     snd (get_orientation E [] ori mag i0 j0 sigma_ratio)"

definition split_point :: "InterestPoint \<Rightarrow> real list \<Rightarrow> InterestPointList" where
  "split_point p modes =
     (case modes of
        [] \<Rightarrow> [p]
      | a # rest \<Rightarrow> map (\<lambda>b. p\<lparr>ip_orientation := b\<rparr>) rest @ [p\<lparr>ip_orientation := a\<rparr>])"

definition point_orientations ::
  "collaborators \<Rightarrow> ImageView \<Rightarrow> ImageView \<Rightarrow> InterestPoint \<Rightarrow> real list" where
  "point_orientations E ori mag p =
     window_orientations E ori mag (int_cast (ip_x p + 1 / 2)) (int_cast (ip_y p + 1 / 2)) 1"

definition split_point_scaled ::
  "collaborators \<Rightarrow> ImageInterestData list \<Rightarrow> ImageOctave \<Rightarrow> InterestPoint
     \<Rightarrow> InterestPointList option" where
  "split_point_scaled E img_data octave p =
     (let k = scale_to_plane_index octave (ip_scale p)
      in case vector_at img_data k of
           None \<Rightarrow> None
         | Some d \<Rightarrow>
             Some (split_point p
                     (window_orientations E (data_orientation d) (data_magnitude d)
                        (int_cast (ip_x p + 1 / 2)) (int_cast (ip_y p + 1 / 2))
                        (sigma octave k / sigma octave 1))))"

section \<open>Instances for the worked examples\<close>

text \<open>
  Concrete points for the worked instances: a candidate as the extremum finder
  leaves it, at pixel \<open>(i, j)\<close> with the given interest, at scale 1, with no
  orientation assigned and an empty descriptor.
\<close>

definition candidate :: "int \<Rightarrow> int \<Rightarrow> real \<Rightarrow> InterestPoint" where
  "candidate i j v =
     \<lparr>ip_x = of_int i, ip_y = of_int j, ip_scale = 1, ip_ix = i, ip_iy = j,
      ip_orientation = 0, ip_interest = v, ip_descriptor = []\<rparr>"

text \<open>
  One choice of the collaborators, a plane and its per-plane data, on which the
  theorems below are evaluated: a two-tap filter, the five-point Laplacian, a flat
  weight kernel, a crop without edge extension, and a histogram whose modes are the
  bins 9 and 27.
\<close>

definition test_collaborators :: collaborators where
  "test_collaborators =
     \<lparr>generate_gaussian_kernel = (\<lambda>s n. [1]),
      separable_convolution_filter =
        (\<lambda>im k1 k2. im\<lparr>pixel := (\<lambda>i j. pixel im i j + pixel im (i + 1) j)\<rparr>),
      laplacian_filter =
        (\<lambda>im. im\<lparr>pixel := (\<lambda>i j. pixel im (i - 1) j + pixel im (i + 1) j
                                  + pixel im i (j - 1) + pixel im i (j + 1) - 4 * pixel im i j)\<rparr>),
      make_gaussian_kernel_2d = (\<lambda>s w. \<lparr>cols = w, rows = w, pixel = (\<lambda>i j. 1)\<rparr>),
      crop_edge_extend =
        (\<lambda>im l t w h. \<lparr>cols = w, rows = h, pixel = (\<lambda>i j. pixel im (l + i) (t + j))\<rparr>),
      weighted_histogram = (\<lambda>vals weights lo hi n. replicate (nat n) 1),
      smooth_weighted_histogram = (\<lambda>h b. h),
      find_weighted_histogram_mode = (\<lambda>h. if h = [] then [] else [9, 27]),
      interest_data =
        (\<lambda>im. \<lparr>data_source = im, data_gradient_x = im, data_gradient_y = im,
               data_orientation = im, data_magnitude = im, data_interest = im\<rparr>),
      find_peaks = (\<lambda>d. []),
      fit_peak = (\<lambda>im p. p)\<rparr>"

definition test_plane :: "int \<Rightarrow> int \<Rightarrow> ImageView" where
  "test_plane w h = \<lparr>cols = w, rows = h, pixel = (\<lambda>i j. of_int (i * i))\<rparr>"

definition test_data :: ImageInterestData where
  "test_data = interest_data test_collaborators (test_plane 20 20)"

definition harris_test_data :: ImageInterestData where
  "harris_test_data =
     (interest_data test_collaborators (test_plane 20 20))
       \<lparr>data_gradient_x := \<lparr>cols = 20, rows = 20, pixel = (\<lambda>i j. of_int i)\<rparr>,
        data_gradient_y := \<lparr>cols = 20, rows = 20, pixel = (\<lambda>i j. 1)\<rparr>\<rparr>"

text \<open>
  A tiling wrapper over a driver that reports one point per image, at pixel (1, 2)
  with the pixel's value as its interest, and over a partition into two tiles side
  by side.
\<close>

definition test_detector :: "(ImageView, ImageView) detector_base" where
  "test_detector =
     \<lparr>impl_process_image = (\<lambda>im. [candidate 1 2 (pixel im 1 2)]),
      gray_float = (\<lambda>im. im),
      crop = (\<lambda>im b. \<lparr>cols = max_x b - min_x b, rows = max_y b - min_y b,
                       pixel = (\<lambda>i j. pixel im (min_x b + i) (min_y b + j))\<rparr>),
      image_blocks = (\<lambda>im w h. [\<lparr>min_x = 0, min_y = 0, max_x = w, max_y = h\<rparr>,
                                \<lparr>min_x = w, min_y = 0, max_x = 2 * w, max_y = h\<rparr>])\<rparr>"

definition test_octave :: ImageOctave where
  "test_octave = \<lparr>scale_to_plane_index = (\<lambda>s. 1), sigma = (\<lambda>k. 1)\<rparr>"

section \<open>Properties of the interest point structure\<close>

lemma list_insert_eq_insort_key:
  "list_insert p qs = insort_key (\<lambda>q. - ip_interest q) p qs"
  by (induction qs) (auto simp: operator_less_def)

lemma list_sort_eq_sort_key: "list_sort ps = sort_key (\<lambda>q. - ip_interest q) ps"
  by (induction ps) (simp_all add: list_insert_eq_insort_key)

lemma mset_list_sort: "mset (list_sort ps) = mset ps"
  by (simp add: list_sort_eq_sort_key)

lemma length_list_sort: "length (list_sort ps) = length ps"
  by (simp add: list_sort_eq_sort_key)

lemma descending_list_sort:
  "sorted_wrt (\<lambda>a b. ip_interest b \<le> ip_interest a) (list_sort ps)"
proof -
  have "sorted (map (\<lambda>q. - ip_interest q) (list_sort ps))"
    by (simp add: list_sort_eq_sort_key)
  then show ?thesis
    by (simp add: sorted_wrt_map)
qed

lemma descending_take_drop:
  assumes "sorted_wrt (\<lambda>a b. ip_interest b \<le> ip_interest a) xs"
    and "p \<in> set (take n xs)" and "q \<in> set (drop n xs)"
  shows "ip_interest q \<le> ip_interest p"
proof -
  have "sorted_wrt (\<lambda>a b. ip_interest b \<le> ip_interest a) (take n xs @ drop n xs)"
    using assms(1) by simp
  then show ?thesis
    using assms(2,3) unfolding sorted_wrt_append by blast
qed

lemma cull_cases:
  "cull N ps = (if 0 < N \<and> N < int (length ps) then take (nat N) (list_sort ps) else list_sort ps)"
  by (simp add: cull_def Let_def length_list_sort)

lemma cull_take: "0 < N \<Longrightarrow> cull N ps = take (nat N) (list_sort ps)"
  by (simp add: cull_cases length_list_sort)

lemma mset_cull_drop:
  "0 < N \<Longrightarrow> mset (cull N ps) + mset (drop (nat N) (list_sort ps)) = mset ps"
proof -
  assume "0 < N"
  then have "mset (cull N ps) + mset (drop (nat N) (list_sort ps))
      = mset (take (nat N) (list_sort ps) @ drop (nat N) (list_sort ps))"
    by (simp only: cull_take mset_append)
  also have "\<dots> = mset ps"
    by (simp only: append_take_drop_id mset_list_sort)
  finally show ?thesis .
qed

lemma threshold_eq_filter:
  "threshold this points img_data
     = filter (\<lambda>pos. interest_threshold (m_interest this) pos img_data) points"
  by (induction points) simp_all

lemma process_image_stages:
  "process_image E this img =
     (let img_data = interest_operator_call E (m_interest this) (interest_data E img) 1
      in assign_orientations E
           (cull (m_max_points this)
              (threshold this (localize E (find_extrema E img_data) img_data) img_data))
           img_data)"
  by (simp add: process_image_def Let_def)

text \<open>
  C8. For every interest point \<open>p\<close>, \<open>p[0]\<close> is \<open>p.x\<close> and \<open>p[1]\<close> is \<open>p.y\<close>; every
  index other than 0 and 1 raises \<^verbatim>\<open>ArgumentErr\<close> and returns no value.
\<close>

theorem operator_index_coordinates:
  "operator_index p 0 = Inr (ip_x p) \<and>
   operator_index p 1 = Inr (ip_y p) \<and>
   (\<forall>i. i \<noteq> 0 \<and> i \<noteq> 1 \<longrightarrow>
      (\<exists>msg. operator_index p i = Inl (ArgumentErr msg)) \<and>
      (\<forall>v. operator_index p i \<noteq> Inr v))"
  by (simp add: operator_index_def)

theorem operator_index_coordinates_witness:
  "operator_index (candidate 4 9 1) 0 = Inr 4 \<and>
   operator_index (candidate 4 9 1) 1 = Inr 9 \<and>
   operator_index (candidate 4 9 1) 2 = Inl (ArgumentErr ''Interest Point: Invalid index'') \<and>
   operator_index (candidate 4 9 1) (- 1) = Inl (ArgumentErr ''Interest Point: Invalid index'')"
  using operator_index_coordinates [of "candidate 4 9 1"]
  by (simp add: operator_index_def candidate_def)

text \<open>
  C1. The cull stage with a limit \<open>N > 0\<close> returns exactly \<open>min N (length input)\<close>
  points, all taken from the input, and every retained point has an interest at least
  that of every discarded point (the discarded points are the input without the
  retained ones, as multisets). With \<open>N = 0\<close> nothing is discarded. The comparator is
  descending interest: \<open>p < q\<close> exactly when \<open>q.interest < p.interest\<close>, and the culled
  list is in descending order of interest.
\<close>

theorem cull_retains_most_interesting:
  "(0 < N \<longrightarrow>
      int (length (cull N ps)) = min N (int (length ps)) \<and>
      mset (cull N ps) \<subseteq># mset ps \<and>
      (\<forall>p \<in> set (cull N ps). \<forall>q \<in># mset ps - mset (cull N ps).
          ip_interest q \<le> ip_interest p)) \<and>
   mset (cull 0 ps) = mset ps \<and>
   (operator_less p q \<longleftrightarrow> ip_interest q < ip_interest p) \<and>
   sorted_wrt (\<lambda>a b. ip_interest b \<le> ip_interest a) (cull N ps)"
proof -
  have len: "int (length (cull N ps)) = min N (int (length ps))" if "0 < N"
    using that by (simp add: cull_cases length_list_sort)
  have sub: "mset (cull N ps) \<subseteq># mset ps" if "0 < N"
    using mset_cull_drop [OF that, of ps] by (metis mset_subset_eq_add_left)
  have disc: "mset ps - mset (cull N ps) = mset (drop (nat N) (list_sort ps))" if "0 < N"
    using mset_cull_drop [OF that, of ps] by (metis add_diff_cancel_left')
  have rank: "ip_interest q \<le> ip_interest p"
    if "0 < N" "p \<in> set (cull N ps)" "q \<in># mset ps - mset (cull N ps)" for p q
  proof -
    have "p \<in> set (take (nat N) (list_sort ps))"
      using that(1,2) by (simp add: cull_take)
    moreover have "q \<in> set (drop (nat N) (list_sort ps))"
      using that(3) disc [OF that(1)] by simp
    ultimately show ?thesis
      using descending_take_drop [OF descending_list_sort] by blast
  qed
  have zero: "mset (cull 0 ps) = mset ps"
    by (simp add: cull_cases mset_list_sort)
  have desc: "sorted_wrt (\<lambda>a b. ip_interest b \<le> ip_interest a) (cull N ps)"
    by (simp add: cull_cases descending_list_sort sorted_wrt_take)
  show ?thesis
    using len sub rank zero desc by (simp add: operator_less_def)
qed

theorem cull_retains_most_interesting_witness:
  "cull 2 [candidate 1 1 1, candidate 2 2 3, candidate 3 3 2, candidate 4 4 3]
     = [candidate 2 2 3, candidate 4 4 3] \<and>
   int (length (cull 2 [candidate 1 1 1, candidate 2 2 3, candidate 3 3 2, candidate 4 4 3]))
     = min 2 4 \<and>
   ip_interest (candidate 3 3 2) \<le> ip_interest (candidate 4 4 3) \<and>
   cull 0 [candidate 1 1 1, candidate 2 2 3, candidate 3 3 2, candidate 4 4 3]
     = [candidate 2 2 3, candidate 4 4 3, candidate 3 3 2, candidate 1 1 1]"
  using cull_retains_most_interesting
    [of 2 "[candidate 1 1 1, candidate 2 2 3, candidate 3 3 2, candidate 4 4 3]"]
  by (simp add: cull_def operator_less_def candidate_def)

section \<open>Orientation assignment\<close>

lemma insert_clones_append:
  "insert_clones i rest before = before @ map (\<lambda>a. i\<lparr>ip_orientation := a\<rparr>) rest"
  by (induction rest arbitrary: before) (simp_all add: Let_def)

lemma snd_get_orientation:
  "snd (get_orientation E v ori mag i0 j0 r) = window_orientations E ori mag i0 j0 r"
  by (simp add: get_orientation_def window_orientations_def Let_def)

lemma fst_get_orientation: "fst (get_orientation E v ori mag i0 j0 r) = 0"
  by (simp add: get_orientation_def Let_def)

lemma window_orientations_outside:
  assumes "\<not> window_inside ori
              (i0 - int_cast (of_int IP_ORIENTATION_HALF_WIDTH * r + 1 / 2))
              (j0 - int_cast (of_int IP_ORIENTATION_HALF_WIDTH * r + 1 / 2))
              (int_cast (of_int IP_ORIENTATION_HALF_WIDTH * r + 1 / 2) * 2 + 1)"
  shows "window_orientations E ori mag i0 j0 r = []"
  using assms by (simp add: get_orientation_def window_orientations_def Let_def)

lemma assign_loop_eq:
  "snd (assign_loop E ori mag v before ps)
     = before @ concat (map (\<lambda>p. split_point p (point_orientations E ori mag p)) ps)"
proof (induction ps arbitrary: v before)
  case Nil
  show ?case by simp
next
  case (Cons p ps)
  show ?case
  proof (cases "point_orientations E ori mag p")
    case Nil
    then show ?thesis
      using Cons.IH
      by (simp add: snd_get_orientation point_orientations_def split_point_def)
  next
    case (Cons a rest)
    then show ?thesis
      using Cons.IH
      by (simp add: snd_get_orientation point_orientations_def split_point_def
            insert_clones_append Let_def)
  qed
qed

lemma assign_orientations_eq:
  "assign_orientations E ps data
     = concat (map (\<lambda>p. split_point p
                 (point_orientations E (data_orientation data) (data_magnitude data) p)) ps)"
  by (simp add: assign_orientations_def assign_loop_eq)

lemma length_split_point: "1 \<le> length (split_point p modes)"
  by (cases modes) (simp_all add: split_point_def)

lemma length_concat_split:
  "(\<And>p. 1 \<le> length (f p)) \<Longrightarrow> length ps \<le> length (concat (map f ps))"
proof (induction ps)
  case Nil
  show ?case by simp
next
  case (Cons p ps)
  have "1 \<le> length (f p)" by (rule Cons.prems)
  moreover have "length ps \<le> length (concat (map f ps))"
    using Cons.IH Cons.prems by blast
  ultimately show ?case by simp
qed

lemma assign_loop_scaled_eq:
  "map_option snd (assign_loop_scaled E imgs oct v before ps)
     = (case those (map (split_point_scaled E imgs oct) ps) of
          None \<Rightarrow> None
        | Some xss \<Rightarrow> Some (before @ concat xss))"
proof (induction ps arbitrary: v before)
  case Nil
  show ?case by simp
next
  case (Cons p ps)
  show ?case
  proof (cases "vector_at imgs (scale_to_plane_index oct (ip_scale p))")
    case None
    then show ?thesis by (simp add: split_point_scaled_def)
  next
    case (Some d)
    show ?thesis
    proof (cases "window_orientations E (data_orientation d) (data_magnitude d)
                    (int_cast (ip_x p + 1 / 2)) (int_cast (ip_y p + 1 / 2))
                    (sigma oct (scale_to_plane_index oct (ip_scale p)) / sigma oct 1)")
      case Nil
      then show ?thesis
        using Some Cons.IH
        by (simp add: snd_get_orientation split_point_scaled_def split_point_def
              split: option.splits)
    next
      case (Cons a rest)
      then show ?thesis
        using Some Cons.IH
        by (simp add: snd_get_orientation split_point_scaled_def split_point_def
              insert_clones_append Let_def split: option.splits)
    qed
  qed
qed

lemma those_append:
  "those (xs @ ys) =
     (case those xs of None \<Rightarrow> None
      | Some a \<Rightarrow> (case those ys of None \<Rightarrow> None | Some b \<Rightarrow> Some (a @ b)))"
  by (induction xs) (auto split: option.splits)


lemma assign_orientations_scaled_eq:
  "assign_orientations_scaled E ps imgs oct
     = map_option concat (those (map (split_point_scaled E imgs oct) ps))"
  using assign_loop_scaled_eq [of E imgs oct "[]" "[]" ps]
  by (simp add: assign_orientations_scaled_def split: option.splits)

lemma length_those_split:
  "those (map (split_point_scaled E imgs oct) ps) = Some xss
     \<Longrightarrow> length ps \<le> length (concat xss)"
proof (induction ps arbitrary: xss)
  case Nil
  then show ?case by simp
next
  case (Cons p ps)
  from Cons.prems obtain xs yss where
    p: "split_point_scaled E imgs oct p = Some xs"
    and rest: "those (map (split_point_scaled E imgs oct) ps) = Some yss"
    and xss: "xss = xs # yss"
    by (auto split: option.splits)
  have "1 \<le> length xs"
    using p length_split_point
    by (auto simp: split_point_scaled_def Let_def split: option.splits)
  moreover have "length ps \<le> length (concat yss)"
    using Cons.IH rest by blast
  ultimately show ?case
    using xss by simp
qed

lemma those_split_total:
  "\<forall>q \<in> set ps. vector_at imgs (scale_to_plane_index oct (ip_scale q)) \<noteq> None
     \<Longrightarrow> those (map (split_point_scaled E imgs oct) ps) \<noteq> None"
  by (induction ps) (auto simp: split_point_scaled_def Let_def split: option.splits)

lemma assign_orientations_append:
  "assign_orientations E (xs @ ys) data = assign_orientations E xs data @ assign_orientations E ys data"
  by (simp add: assign_orientations_eq)

lemma assign_orientations_single:
  "assign_orientations E [p] data
     = split_point p (point_orientations E (data_orientation data) (data_magnitude data) p)"
  by (simp add: assign_orientations_eq)

text \<open>
  C4. When the window of side \<open>2 * halfwidth + 1\<close> around \<open>(i0, j0)\<close> fails the
  bounds test of \<^verbatim>\<open>get_orientation\<close>, the call returns normally (result 0) and leaves
  the vector empty, whatever it held before. In the single-scale detector the
  half-width is 5 and the centre is \<open>((int)(x + 0.5), (int)(y + 0.5))\<close>: a point whose
  window fails the test comes out of \<^verbatim>\<open>assign_orientations\<close> as it went in, at its
  place between the results for the points in front of it and behind it.
\<close>

theorem window_outside_no_orientation:
  "(let halfwidth = int_cast (of_int IP_ORIENTATION_HALF_WIDTH * r + 1 / 2)
    in \<not> window_inside ori (i0 - halfwidth) (j0 - halfwidth) (halfwidth * 2 + 1)
       \<longrightarrow> get_orientation E v ori mag i0 j0 r = (0, [])) \<and>
   (\<not> window_inside (data_orientation data)
         (int_cast (ip_x p + 1 / 2) - 5) (int_cast (ip_y p + 1 / 2) - 5) 11
    \<longrightarrow> assign_orientations E (front @ p # behind) data
          = assign_orientations E front data @ [p] @ assign_orientations E behind data)"
proof -
  have one: "get_orientation E v ori mag i0 j0 r = (0, [])"
    if "\<not> window_inside ori
           (i0 - int_cast (of_int IP_ORIENTATION_HALF_WIDTH * r + 1 / 2))
           (j0 - int_cast (of_int IP_ORIENTATION_HALF_WIDTH * r + 1 / 2))
           (int_cast (of_int IP_ORIENTATION_HALF_WIDTH * r + 1 / 2) * 2 + 1)"
    using window_orientations_outside [OF that, of E mag]
      fst_get_orientation [of E v ori mag i0 j0 r]
      snd_get_orientation [of E v ori mag i0 j0 r]
    by (simp add: prod_eq_iff)
  have two: "assign_orientations E (front @ p # behind) data
               = assign_orientations E front data @ [p] @ assign_orientations E behind data"
    if "\<not> window_inside (data_orientation data)
           (int_cast (ip_x p + 1 / 2) - 5) (int_cast (ip_y p + 1 / 2) - 5) 11"
  proof -
    have "point_orientations E (data_orientation data) (data_magnitude data) p = []"
      unfolding point_orientations_def
      by (rule window_orientations_outside)
        (use that in \<open>simp add: int_cast_def IP_ORIENTATION_HALF_WIDTH_def\<close>)
    then have "assign_orientations E [p] data = [p]"
      by (simp add: assign_orientations_single split_point_def)
    then show ?thesis
      using assign_orientations_append [of E front "[p] @ behind" data]
        assign_orientations_append [of E "[p]" behind data]
      by simp
  qed
  show ?thesis
    using one two by (simp add: Let_def)
qed

theorem window_outside_no_orientation_witness:
  "\<not> window_inside (test_plane 20 20) (3 - 5) (10 - 5) 11 \<and>
   get_orientation test_collaborators [7] (test_plane 20 20) (test_plane 20 20) 3 10 1 = (0, []) \<and>
   assign_orientations test_collaborators
       ([candidate 10 10 2] @ candidate 3 10 1 # [candidate 10 9 1]) test_data
     = assign_orientations test_collaborators [candidate 10 10 2] test_data @ [candidate 3 10 1] @
       assign_orientations test_collaborators [candidate 10 9 1] test_data"
  using window_outside_no_orientation
    [of 1 "test_plane 20 20" 3 10 test_collaborators "[7]" "test_plane 20 20" test_data
        "candidate 3 10 1" "[candidate 10 10 2]" "[candidate 10 9 1]"]
  by (simp add: window_inside_def test_plane_def test_data_def test_collaborators_def
        candidate_def int_cast_def IP_ORIENTATION_HALF_WIDTH_def)

text \<open>
  C5. When \<^verbatim>\<open>get_orientation\<close> yields the modes \<open>a # rest\<close> for a point \<open>p\<close>,
  \<^verbatim>\<open>assign_orientations\<close> gives \<open>p\<close> the orientation \<open>a\<close> and puts one copy of \<open>p\<close>
  for each mode of \<open>rest\<close>, differing from \<open>p\<close> in the orientation only, directly in
  front of \<open>p\<close>: between the results for the points in front of \<open>p\<close> and \<open>p\<close>
  itself, not at the end of the list. The output is never shorter than the input.
  The same holds for the multi-octave detector, whose loop returns a list whenever
  every point's plane index lies inside the vector of per-plane data.
\<close>

theorem orientation_modes_split_point:
  "(snd (get_orientation E v (data_orientation data) (data_magnitude data)
           (int_cast (ip_x p + 1 / 2)) (int_cast (ip_y p + 1 / 2)) 1) = a # rest
    \<longrightarrow> assign_orientations E (front @ p # behind) data
          = assign_orientations E front data
            @ map (\<lambda>b. p\<lparr>ip_orientation := b\<rparr>) rest @ [p\<lparr>ip_orientation := a\<rparr>]
            @ assign_orientations E behind data) \<and>
   length ps \<le> length (assign_orientations E ps data) \<and>
   (vector_at imgs (scale_to_plane_index oct (ip_scale p)) = Some d \<and>
    snd (get_orientation E v (data_orientation d) (data_magnitude d)
           (int_cast (ip_x p + 1 / 2)) (int_cast (ip_y p + 1 / 2))
           (sigma oct (scale_to_plane_index oct (ip_scale p)) / sigma oct 1)) = a # rest \<and>
    assign_orientations_scaled E front imgs oct = Some front' \<and>
    assign_orientations_scaled E behind imgs oct = Some behind'
    \<longrightarrow> assign_orientations_scaled E (front @ p # behind) imgs oct
          = Some (front' @ map (\<lambda>b. p\<lparr>ip_orientation := b\<rparr>) rest
                  @ [p\<lparr>ip_orientation := a\<rparr>] @ behind')) \<and>
   (assign_orientations_scaled E ps imgs oct = Some out \<longrightarrow> length ps \<le> length out) \<and>
   ((\<forall>q \<in> set ps. vector_at imgs (scale_to_plane_index oct (ip_scale q)) \<noteq> None)
    \<longrightarrow> assign_orientations_scaled E ps imgs oct \<noteq> None)"
proof -
  have single: "assign_orientations E (front @ p # behind) data
          = assign_orientations E front data
            @ map (\<lambda>b. p\<lparr>ip_orientation := b\<rparr>) rest @ [p\<lparr>ip_orientation := a\<rparr>]
            @ assign_orientations E behind data"
    if "snd (get_orientation E v (data_orientation data) (data_magnitude data)
           (int_cast (ip_x p + 1 / 2)) (int_cast (ip_y p + 1 / 2)) 1) = a # rest"
  proof -
    have "point_orientations E (data_orientation data) (data_magnitude data) p = a # rest"
      using that by (simp add: snd_get_orientation point_orientations_def)
    then show ?thesis
      by (simp add: assign_orientations_eq split_point_def)
  qed
  have grow: "length ps \<le> length (assign_orientations E ps data)"
    unfolding assign_orientations_eq
    by (rule length_concat_split) (rule length_split_point)
  have scaled: "assign_orientations_scaled E (front @ p # behind) imgs oct
          = Some (front' @ map (\<lambda>b. p\<lparr>ip_orientation := b\<rparr>) rest
                  @ [p\<lparr>ip_orientation := a\<rparr>] @ behind')"
    if "vector_at imgs (scale_to_plane_index oct (ip_scale p)) = Some d"
      and "snd (get_orientation E v (data_orientation d) (data_magnitude d)
           (int_cast (ip_x p + 1 / 2)) (int_cast (ip_y p + 1 / 2))
           (sigma oct (scale_to_plane_index oct (ip_scale p)) / sigma oct 1)) = a # rest"
      and "assign_orientations_scaled E front imgs oct = Some front'"
      and "assign_orientations_scaled E behind imgs oct = Some behind'"
  proof -
    have "split_point_scaled E imgs oct p
            = Some (map (\<lambda>b. p\<lparr>ip_orientation := b\<rparr>) rest @ [p\<lparr>ip_orientation := a\<rparr>])"
      using that(1,2) by (simp add: split_point_scaled_def snd_get_orientation split_point_def)
    then show ?thesis
      using that(3,4)
      by (auto simp: assign_orientations_scaled_eq those_append split: option.splits)
  qed
  have grow_scaled: "length ps \<le> length out"
    if "assign_orientations_scaled E ps imgs oct = Some out"
    using that length_those_split [of E imgs oct ps]
    by (auto simp: assign_orientations_scaled_eq)
  have total: "assign_orientations_scaled E ps imgs oct \<noteq> None"
    if "\<forall>q \<in> set ps. vector_at imgs (scale_to_plane_index oct (ip_scale q)) \<noteq> None"
    using that those_split_total [of ps imgs oct E]
    by (auto simp: assign_orientations_scaled_eq)
  show ?thesis
    using single grow scaled grow_scaled total by blast
qed


theorem orientation_modes_split_point_witness:
  "assign_orientations test_collaborators
       ([candidate 3 10 1] @ candidate 10 10 2 # [candidate 10 9 1]) test_data
     = [candidate 3 10 1,
        (candidate 10 10 2)\<lparr>ip_orientation := pi / 2\<rparr>,
        (candidate 10 10 2)\<lparr>ip_orientation := - pi / 2\<rparr>,
        (candidate 10 9 1)\<lparr>ip_orientation := pi / 2\<rparr>,
        (candidate 10 9 1)\<lparr>ip_orientation := - pi / 2\<rparr>] \<and>
   assign_orientations_scaled test_collaborators
       ([candidate 3 10 1] @ candidate 10 10 2 # [candidate 10 9 1])
       [test_data, test_data] test_octave
     = Some [candidate 3 10 1,
        (candidate 10 10 2)\<lparr>ip_orientation := pi / 2\<rparr>,
        (candidate 10 10 2)\<lparr>ip_orientation := - pi / 2\<rparr>,
        (candidate 10 9 1)\<lparr>ip_orientation := pi / 2\<rparr>,
        (candidate 10 9 1)\<lparr>ip_orientation := - pi / 2\<rparr>]"
  using orientation_modes_split_point
    [where E = test_collaborators and v = "[]" and data = test_data
       and p = "candidate 10 10 2" and a = "- pi / 2" and rest = "[pi / 2]"
       and front = "[candidate 3 10 1]" and behind = "[candidate 10 9 1]"
       and imgs = "[test_data, test_data]" and oct = test_octave and d = test_data
       and front' = "[candidate 3 10 1]"
       and behind' = "[(candidate 10 9 1)\<lparr>ip_orientation := pi / 2\<rparr>,
                       (candidate 10 9 1)\<lparr>ip_orientation := - pi / 2\<rparr>]"
       and ps = "[candidate 10 10 2]"
       and out = "[(candidate 10 10 2)\<lparr>ip_orientation := pi / 2\<rparr>,
                   (candidate 10 10 2)\<lparr>ip_orientation := - pi / 2\<rparr>]"]
  by (simp add: assign_orientations_def assign_orientations_scaled_def get_orientation_def
        vector_at_def Let_def window_inside_def test_plane_def test_data_def test_octave_def
        test_collaborators_def candidate_def int_cast_def IP_ORIENTATION_HALF_WIDTH_def
        FEATURE_ORI_NBINS_def)

text \<open>
  C9. \<^verbatim>\<open>get_orientation\<close> empties the vector first: its result does not depend on
  what the vector held at the call, and after a call whose bounds test fails the
  vector is empty. So the loop of \<^verbatim>\<open>assign_orientations\<close>, which passes one vector to
  every call, produces the same list whatever the vector holds when the loop starts,
  and what it produces for a point is decided by the modes of that point alone.
\<close>

theorem get_orientation_clears_vector:
  "get_orientation E v ori mag i0 j0 r = get_orientation E [] ori mag i0 j0 r \<and>
   (let halfwidth = int_cast (of_int IP_ORIENTATION_HALF_WIDTH * r + 1 / 2)
    in \<not> window_inside ori (i0 - halfwidth) (j0 - halfwidth) (halfwidth * 2 + 1)
       \<longrightarrow> snd (get_orientation E v ori mag i0 j0 r) = []) \<and>
   snd (assign_loop E ori mag v before ps) = snd (assign_loop E ori mag [] before ps) \<and>
   map_option snd (assign_loop_scaled E imgs oct v before ps)
     = map_option snd (assign_loop_scaled E imgs oct [] before ps) \<and>
   assign_orientations E ps data
     = concat (map (\<lambda>p. split_point p
                 (snd (get_orientation E [] (data_orientation data) (data_magnitude data)
                         (int_cast (ip_x p + 1 / 2)) (int_cast (ip_y p + 1 / 2)) 1))) ps)"
proof -
  have fresh: "get_orientation E v ori mag i0 j0 r = get_orientation E [] ori mag i0 j0 r"
    by (simp add: get_orientation_def)
  have empty: "snd (get_orientation E v ori mag i0 j0 r) = []"
    if "\<not> window_inside ori
           (i0 - int_cast (of_int IP_ORIENTATION_HALF_WIDTH * r + 1 / 2))
           (j0 - int_cast (of_int IP_ORIENTATION_HALF_WIDTH * r + 1 / 2))
           (int_cast (of_int IP_ORIENTATION_HALF_WIDTH * r + 1 / 2) * 2 + 1)"
    using window_orientations_outside [OF that, of E mag]
    by (simp add: snd_get_orientation)
  have loop: "snd (assign_loop E ori mag v before ps) = snd (assign_loop E ori mag [] before ps)"
    by (simp add: assign_loop_eq)
  have loop_scaled: "map_option snd (assign_loop_scaled E imgs oct v before ps)
     = map_option snd (assign_loop_scaled E imgs oct [] before ps)"
    by (simp add: assign_loop_scaled_eq)
  have own: "assign_orientations E ps data
     = concat (map (\<lambda>p. split_point p
                 (snd (get_orientation E [] (data_orientation data) (data_magnitude data)
                         (int_cast (ip_x p + 1 / 2)) (int_cast (ip_y p + 1 / 2)) 1))) ps)"
    by (simp add: assign_orientations_eq point_orientations_def window_orientations_def)
  show ?thesis
    using fresh empty loop loop_scaled own by (simp add: Let_def)
qed

theorem get_orientation_clears_vector_witness:
  "get_orientation test_collaborators [1, 2] (test_plane 20 20) (test_plane 20 20) 3 10 1 = (0, []) \<and>
   get_orientation test_collaborators [1, 2] (test_plane 20 20) (test_plane 20 20) 10 10 1
     = (0, [- pi / 2, pi / 2]) \<and>
   snd (assign_loop test_collaborators (test_plane 20 20) (test_plane 20 20) [1, 2] []
          [candidate 3 10 1, candidate 10 10 2])
     = [candidate 3 10 1,
        (candidate 10 10 2)\<lparr>ip_orientation := pi / 2\<rparr>,
        (candidate 10 10 2)\<lparr>ip_orientation := - pi / 2\<rparr>] \<and>
   assign_orientations test_collaborators [candidate 10 10 2, candidate 3 10 1] test_data
     = [(candidate 10 10 2)\<lparr>ip_orientation := pi / 2\<rparr>,
        (candidate 10 10 2)\<lparr>ip_orientation := - pi / 2\<rparr>,
        candidate 3 10 1]"
  using get_orientation_clears_vector
    [where E = test_collaborators and v = "[1, 2]" and ori = "test_plane 20 20"
       and mag = "test_plane 20 20" and ?i0.0 = 3 and ?j0.0 = 10 and r = 1
       and before = "[]" and ps = "[candidate 3 10 1, candidate 10 10 2]"
       and data = test_data]
  by (simp add: assign_orientations_def get_orientation_def
        Let_def window_inside_def test_plane_def test_data_def
        test_collaborators_def candidate_def int_cast_def IP_ORIENTATION_HALF_WIDTH_def
        FEATURE_ORI_NBINS_def)


section \<open>The tiling wrapper\<close>

lemma tile_loop_eq:
  "tile_loop D img bboxes (calls, pts)
     = (calls @ map (crop D (gray_float D img)) bboxes,
        pts @ concat (map (\<lambda>bbox. map (translate_point bbox)
                              (impl_process_image D (crop D (gray_float D img) bbox))) bboxes))"
  by (induction bboxes arbitrary: calls pts) (simp_all add: Let_def)

text \<open>
  C2. With a tile dimension other than 0 (in particular a positive one), the result
  of the wrapper is the concatenation, in the order of the tiles that \<^verbatim>\<open>image_blocks\<close>
  returns, of the points that \<^verbatim>\<open>process_image\<close> returns for each tile, each point with
  \<open>x\<close>, \<open>ix\<close> moved by the \<open>x\<close> and \<open>y\<close>, \<open>iy\<close> by the \<open>y\<close> of the tile's minimum corner
  and its scale, orientation, interest and descriptor as they were; nothing reorders
  the list afterwards, and \<^verbatim>\<open>process_image\<close> is called once per tile, on the tile
  cropped from the converted image. With the tile dimension 0, \<^verbatim>\<open>process_image\<close> is
  called exactly once, on the whole converted image, and its result is the result.
\<close>

theorem detect_tiles_translated_and_concatenated:
  "(m \<noteq> 0 \<longrightarrow>
      snd (detect D img m)
        = concat (map (\<lambda>bbox. map (translate_point bbox)
                         (impl_process_image D (crop D (gray_float D img) bbox)))
                    (image_blocks D img m m)) \<and>
      fst (detect D img m) = map (crop D (gray_float D img)) (image_blocks D img m m)) \<and>
   ip_x (translate_point bbox pt) = ip_x pt + of_int (min_x bbox) \<and>
   ip_y (translate_point bbox pt) = ip_y pt + of_int (min_y bbox) \<and>
   ip_ix (translate_point bbox pt) = ip_ix pt + min_x bbox \<and>
   ip_iy (translate_point bbox pt) = ip_iy pt + min_y bbox \<and>
   ip_scale (translate_point bbox pt) = ip_scale pt \<and>
   ip_orientation (translate_point bbox pt) = ip_orientation pt \<and>
   ip_interest (translate_point bbox pt) = ip_interest pt \<and>
   ip_descriptor (translate_point bbox pt) = ip_descriptor pt \<and>
   detect D img 0 = ([gray_float D img], impl_process_image D (gray_float D img))"
  by (simp add: detect_def tile_loop_eq translate_point_def Let_def)

theorem detect_tiles_translated_and_concatenated_witness:
  "snd (detect test_detector (test_plane 20 20) 10)
     = [candidate 1 2 1,
        (candidate 1 2 121)\<lparr>ip_x := 11, ip_ix := 11\<rparr>] \<and>
   length (fst (detect test_detector (test_plane 20 20) 10)) = 2 \<and>
   snd (detect test_detector (test_plane 20 20) 0) = [candidate 1 2 1] \<and>
   length (fst (detect test_detector (test_plane 20 20) 0)) = 1"
  using detect_tiles_translated_and_concatenated
    [where D = test_detector and img = "test_plane 20 20" and m = 10]
  by (simp add: detect_def translate_point_def Let_def test_detector_def test_plane_def
        candidate_def)

section \<open>The interest operators\<close>

text \<open>
  C6. The Harris operator stores, at every pixel, \<open>det / (trace + 1e-6)\<close> when its
  \<open>k\<close> is negative and \<open>det - k * trace * trace\<close> otherwise, where \<open>trace = Ix2 + Iy2\<close>,
  \<open>det = Ix2 * Iy2 - Ixy * Ixy\<close> and \<open>Ix2\<close>, \<open>Iy2\<close>, \<open>Ixy\<close> are the separable
  convolutions, with the Gaussian kernel of the scale in both directions, of the
  pixel-wise products of the gradient planes. Its peak type is \<^verbatim>\<open>IP_MAX\<close>, maxima only.
  Its threshold predicate is \<open>pt.interest > threshold\<close>, and the default operator has
  the threshold \<open>1e-5\<close> and \<open>k = -1\<close>.
\<close>

theorem Harris_interest_measure:
  "(let kernel = generate_gaussian_kernel E s 0;
        Ix2 = pixel (separable_convolution_filter E
                       (image_binary (*) (data_gradient_x data) (data_gradient_x data))
                       kernel kernel) i j;
        Iy2 = pixel (separable_convolution_filter E
                       (image_binary (*) (data_gradient_y data) (data_gradient_y data))
                       kernel kernel) i j;
        Ixy = pixel (separable_convolution_filter E
                       (image_binary (*) (data_gradient_x data) (data_gradient_y data))
                       kernel kernel) i j;
        trace = Ix2 + Iy2;
        det = Ix2 * Iy2 - Ixy * Ixy;
        score = pixel (data_interest (Harris_operator_call E h data s)) i j
    in (harris_k h < 0 \<longrightarrow> score = det / (trace + 1 / 1000000)) \<and>
       (0 \<le> harris_k h \<longrightarrow> score = det - harris_k h * trace * trace)) \<and>
   pixel (image_binary (*) a b) i j = pixel a i j * pixel b i j \<and>
   InterestPeakType (Harris h) = IP_MAX \<and>
   detects_maxima (InterestPeakType (Harris h)) \<and>
   \<not> detects_minima (InterestPeakType (Harris h)) \<and>
   (Harris_threshold h pt data' \<longleftrightarrow> ip_interest pt > harris_threshold h) \<and>
   interest_threshold (Harris h) pt data' = Harris_threshold h pt data' \<and>
   harris_threshold HarrisInterestOperator_default = 1 / 100000 \<and>
   harris_k HarrisInterestOperator_default = - 1"
  by (simp add: Harris_operator_call_def Let_def image_binary_def image_unary_def
        set_interest_def Harris_threshold_def HarrisInterestOperator_default_def
        HarrisInterestOperator_init_def detects_maxima_def detects_minima_def)

theorem Harris_interest_measure_witness:
  "pixel (data_interest
            (Harris_operator_call test_collaborators HarrisInterestOperator_default
               harris_test_data 1)) 0 0 = 1000000 / 3000001 \<and>
   pixel (data_interest
            (Harris_operator_call test_collaborators
               (HarrisInterestOperator_init (1 / 100000) (1 / 25)) harris_test_data 1)) 0 0
     = 16 / 25 \<and>
   Harris_threshold HarrisInterestOperator_default (candidate 0 0 (16 / 25)) harris_test_data \<and>
   \<not> Harris_threshold HarrisInterestOperator_default (candidate 0 0 (1 / 100000)) harris_test_data"
  using Harris_interest_measure
    [where E = test_collaborators and h = HarrisInterestOperator_default
       and data = harris_test_data and s = 1 and i = 0 and j = 0]
    Harris_interest_measure
    [where E = test_collaborators and h = "HarrisInterestOperator_init (1 / 100000) (1 / 25)"
       and data = harris_test_data and s = 1 and i = 0 and j = 0]
  by (simp add: Harris_operator_call_def Let_def image_binary_def image_unary_def
        set_interest_def Harris_threshold_def HarrisInterestOperator_default_def
        HarrisInterestOperator_init_def harris_test_data_def test_collaborators_def
        candidate_def)

text \<open>
  C7. The Laplacian-of-Gaussian operator stores, at every pixel, the scale times the
  Laplacian filter of the source plane (and returns the same plane when called on a
  source plane). Its peak type is \<^verbatim>\<open>IP_MINMAX\<close>, maxima and minima. Its threshold
  predicate is \<open>|pt.interest| > threshold\<close>, and the default threshold is \<open>0.03\<close>.
\<close>

theorem Log_interest_measure:
  "pixel (data_interest (Log_operator_call E l data s)) i j
     = s * pixel (laplacian_filter E (data_source data)) i j \<and>
   pixel (Log_operator_view E l src s) i j = s * pixel (laplacian_filter E src) i j \<and>
   InterestPeakType (Log l) = IP_MINMAX \<and>
   detects_maxima (InterestPeakType (Log l)) \<and>
   detects_minima (InterestPeakType (Log l)) \<and>
   (Log_threshold l pt data' \<longleftrightarrow> \<bar>ip_interest pt\<bar> > log_threshold l) \<and>
   interest_threshold (Log l) pt data' = Log_threshold l pt data' \<and>
   log_threshold LogInterestOperator_default = 3 / 100"
  by (simp add: Log_operator_call_def Log_operator_view_def image_unary_def set_interest_def
        Log_threshold_def LogInterestOperator_default_def LogInterestOperator_init_def
        detects_maxima_def detects_minima_def)

theorem Log_interest_measure_witness:
  "pixel (data_interest
            (Log_operator_call test_collaborators LogInterestOperator_default test_data 3)) 4 4
     = 6 \<and>
   Log_threshold LogInterestOperator_default (candidate 4 4 (- 6)) test_data \<and>
   \<not> Log_threshold LogInterestOperator_default (candidate 4 4 (3 / 100)) test_data"
  using Log_interest_measure
    [where E = test_collaborators and l = LogInterestOperator_default and data = test_data
       and s = 3 and i = 4 and j = 4]
  by (simp add: Log_operator_call_def image_unary_def set_interest_def Log_threshold_def
        LogInterestOperator_default_def LogInterestOperator_init_def test_data_def
        test_plane_def test_collaborators_def candidate_def)

text \<open>
  C10. The threshold predicates read only the interest of the point and the
  configured threshold: on two points of equal interest the predicate of the same
  operator returns the same value, whatever the other fields of the points and
  whatever the two data arguments are.
\<close>

theorem threshold_depends_on_interest_only:
  "ip_interest p = ip_interest q \<longrightarrow>
     Harris_threshold h p data = Harris_threshold h q data' \<and>
     Log_threshold l p data = Log_threshold l q data' \<and>
     interest_threshold t p data = interest_threshold t q data'"
  by (cases t) (simp_all add: Harris_threshold_def Log_threshold_def)

theorem threshold_depends_on_interest_only_witness:
  "ip_interest (candidate 1 1 (1 / 2))
     = ip_interest ((candidate 7 8 (1 / 2))
         \<lparr>ip_scale := 3, ip_orientation := 1, ip_descriptor := [1, 2]\<rparr>) \<and>
   Harris_threshold HarrisInterestOperator_default (candidate 1 1 (1 / 2)) test_data \<and>
   Harris_threshold HarrisInterestOperator_default
     ((candidate 7 8 (1 / 2))\<lparr>ip_scale := 3, ip_orientation := 1, ip_descriptor := [1, 2]\<rparr>)
     harris_test_data \<and>
   Log_threshold LogInterestOperator_default (candidate 1 1 (1 / 2)) test_data \<and>
   Log_threshold LogInterestOperator_default
     ((candidate 7 8 (1 / 2))\<lparr>ip_scale := 3, ip_orientation := 1, ip_descriptor := [1, 2]\<rparr>)
     harris_test_data"
  using threshold_depends_on_interest_only
    [where p = "candidate 1 1 (1 / 2)"
       and q = "(candidate 7 8 (1 / 2))
                  \<lparr>ip_scale := 3, ip_orientation := 1, ip_descriptor := [1, 2]\<rparr>"
       and h = HarrisInterestOperator_default and l = LogInterestOperator_default
       and data = test_data and data' = harris_test_data]
  by (simp add: Harris_threshold_def Log_threshold_def HarrisInterestOperator_default_def
        HarrisInterestOperator_init_def LogInterestOperator_default_def
        LogInterestOperator_init_def candidate_def)

end
